theory Spec2Isabelle
  imports Main "HOL-Library.AList"
begin

section \<open>Values, errors and tables\<close>

text \<open>
  A cell of a table is a null (Python \<^verbatim>\<open>None\<close>, pandas \<^verbatim>\<open>NaN\<close>/\<^verbatim>\<open>NaT\<close>), an
  integer, a string or a timestamp. A timestamp is the number of nanoseconds since the
  epoch, as in a pandas \<^verbatim>\<open>Timestamp\<close>. Floating point cells are not part of the
  model.
\<close>

datatype val = VNull | VInt int | VStr string | VDate int

text \<open>
  The exceptions of Python and pandas that the methods can meet. \<open>NotModelled\<close> is
  not an exception: a function returns it on inputs whose pandas behaviour this
  development does not describe (it marks the boundary of the model, never a claim about
  pandas).
\<close>

datatype error = KeyError | ValueError | TypeError | IndexError | OutOfBoundsDatetime | NotModelled

text \<open>
  A \<^verbatim>\<open>DataFrame\<close>: its columns in order, each with its cells from the first row to
  the last, the row labels (the index) and the name of the index, if it has one.
\<close>

record dataframe =
  cols :: "(string \<times> val list) list"
  index :: "val list"
  index_name :: "string option"

definition columns :: "dataframe \<Rightarrow> string list" where
  "columns frame = map fst (cols frame)"

definition nrows :: "dataframe \<Rightarrow> nat" where
  "nrows frame = length (index frame)"


text \<open>The labels of a \<^verbatim>\<open>RangeIndex\<close>: \<open>0, 1, ..., n - 1\<close>.\<close>

definition range_index :: "nat \<Rightarrow> val list" where
  "range_index n = map (\<lambda>i. VInt (int i)) [0..<n]"

subsection \<open>Reading and writing a column\<close>

text \<open>\<^verbatim>\<open>frame[c]\<close>: the cells of column \<open>c\<close>, a \<^verbatim>\<open>KeyError\<close> when there is none.\<close>

definition getitem :: "dataframe \<Rightarrow> string \<Rightarrow> error + val list" where
  "getitem frame c = (case map_of (cols frame) c of None \<Rightarrow> Inl KeyError | Some vs \<Rightarrow> Inr vs)"

text \<open>
  Storing the cells of a column: an existing column keeps its place, a new one goes
  last.
\<close>

definition set_column :: "dataframe \<Rightarrow> string \<Rightarrow> val list \<Rightarrow> dataframe" where
  "set_column frame c vs = frame\<lparr>cols := AList.update c vs (cols frame)\<rparr>"

text \<open>\<^verbatim>\<open>frame[c] = v\<close> for a scalar \<open>v\<close>: every row gets \<open>v\<close>.\<close>

definition set_scalar :: "dataframe \<Rightarrow> string \<Rightarrow> val \<Rightarrow> dataframe" where
  "set_scalar frame c v = set_column frame c (replicate (nrows frame) v)"

text \<open>
  What can be assigned to a column: a scalar, a plain list (or array) of cells, or a
  \<^verbatim>\<open>Series\<close>, whose cells carry row labels.
\<close>

datatype assigned = Scalar val | ListLike "val list" | SeriesLike "(val \<times> val) list"

text \<open>
  A table without rows takes its row labels from the first non-empty list or Series
  assigned to it (pandas' \<^verbatim>\<open>_ensure_valid_index\<close>); its other columns are filled
  with nulls.
\<close>

definition ensure_valid_index :: "dataframe \<Rightarrow> val list \<Rightarrow> dataframe" where
  "ensure_valid_index frame labels =
     (if nrows frame = 0 \<and> labels \<noteq> []
      then frame\<lparr>cols := map (\<lambda>(c, vs). (c, replicate (length labels) VNull)) (cols frame),
                 index := labels\<rparr>
      else frame)"

text \<open>
  \<^verbatim>\<open>frame[c] = value\<close>. A plain list must have one cell per row, else pandas raises
  \<^verbatim>\<open>ValueError\<close> (length of values does not match length of index). A Series is not
  checked for length: its cells are aligned to the rows by label, a row whose label the
  Series lacks gets a null, and only a Series with a repeated label that has to be
  aligned is refused.
\<close>

definition setitem :: "dataframe \<Rightarrow> string \<Rightarrow> assigned \<Rightarrow> error + dataframe" where
  "setitem frame c a =
     (case a of
        Scalar v \<Rightarrow> Inr (set_scalar frame c v)
      | ListLike vs \<Rightarrow>
          (let frame' = ensure_valid_index frame (range_index (length vs))
           in if length vs \<noteq> nrows frame' then Inl ValueError
              else Inr (set_column frame' c vs))
      | SeriesLike ps \<Rightarrow>
          (let frame' = ensure_valid_index frame (map fst ps)
           in if map fst ps = index frame' then Inr (set_column frame' c (map snd ps))
              else if \<not> distinct (map fst ps) then Inl ValueError
              else Inr (set_column frame' c
                     (map (\<lambda>l. case map_of ps l of None \<Rightarrow> VNull | Some v \<Rightarrow> v) (index frame')))))"

subsection \<open>Selecting rows\<close>

text \<open>A function on lists of cells, applied to the row labels and to every column.\<close>

definition map_rows :: "(val list \<Rightarrow> val list) \<Rightarrow> dataframe \<Rightarrow> dataframe" where
  "map_rows f frame = frame\<lparr>cols := map (\<lambda>(c, vs). (c, f vs)) (cols frame), index := f (index frame)\<rparr>"

text \<open>\<^verbatim>\<open>frame[keep]\<close> for a boolean mask: the rows whose entry is true, in order, with their labels.\<close>

definition select :: "bool list \<Rightarrow> 'a list \<Rightarrow> 'a list" where
  "select keep xs = map snd (filter fst (zip keep xs))"

definition boolean_index :: "dataframe \<Rightarrow> bool list \<Rightarrow> dataframe" where
  "boolean_index frame keep = map_rows (select keep) frame"

text \<open>
  The bound of a Python slice on \<open>n\<close> items: a negative bound counts from the end, and
  a bound beyond either end is clipped, never an error.
\<close>

definition slice_bound :: "nat \<Rightarrow> int \<Rightarrow> nat" where
  "slice_bound n pos = (if pos < 0 then nat (max 0 (int n + pos)) else min (nat pos) n)"

text \<open>\<^verbatim>\<open>frame.iloc[:pos]\<close> and \<^verbatim>\<open>frame.iloc[pos:]\<close>.\<close>

definition iloc_to :: "dataframe \<Rightarrow> int \<Rightarrow> dataframe" where
  "iloc_to frame pos = map_rows (take (slice_bound (nrows frame) pos)) frame"

definition iloc_from :: "dataframe \<Rightarrow> int \<Rightarrow> dataframe" where
  "iloc_from frame pos = map_rows (drop (slice_bound (nrows frame) pos)) frame"

text \<open>
  \<^verbatim>\<open>frame.tail(n)\<close>: \<^verbatim>\<open>iloc[0:0]\<close> when \<open>n = 0\<close>, else \<^verbatim>\<open>iloc[-n:]\<close> (so a
  negative \<open>n\<close> drops the first \<open>-n\<close> rows).
\<close>

definition tail :: "dataframe \<Rightarrow> int \<Rightarrow> dataframe" where
  "tail frame n = (if n = 0 then map_rows (\<lambda>xs. []) frame else iloc_from frame (- n))"

subsection \<open>Concatenation\<close>

text \<open>The items of a list without their later repetitions.\<close>

definition uniq :: "'a list \<Rightarrow> 'a list" where
  "uniq xs = rev (remdups (rev xs))"

text \<open>The cells of column \<open>c\<close> in a table, nulls where the table has no such column.\<close>

definition column_or_nulls :: "string \<Rightarrow> dataframe \<Rightarrow> val list" where
  "column_or_nulls c frame =
     (case map_of (cols frame) c of None \<Rightarrow> replicate (nrows frame) VNull | Some vs \<Rightarrow> vs)"

text \<open>
  \<^verbatim>\<open>pd.concat(frames, ignore_index=True)\<close>: the rows of the tables one after the
  other, under the union of their columns in order of first appearance, relabelled
  \<open>0, 1, ...\<close>.
\<close>

definition concat_ignore_index :: "dataframe list \<Rightarrow> dataframe" where
  "concat_ignore_index frames =
     \<lparr>cols = map (\<lambda>c. (c, concat (map (column_or_nulls c) frames)))
               (uniq (concat (map columns frames))),
      index = range_index (sum_list (map nrows frames)),
      index_name = None\<rparr>"

text \<open>
  \<^verbatim>\<open>frame.reset_index()\<close>: the row labels become a first column, named after the
  index, or \<open>index\<close> when the index has no name (\<open>level_0\<close> when a column \<open>index\<close>
  is there already); pandas refuses to insert a column whose name is taken. The rows
  are relabelled \<open>0, 1, ...\<close>.
\<close>

definition reset_index :: "dataframe \<Rightarrow> error + dataframe" where
  "reset_index frame =
     (let name = (case index_name frame of
                    Some n \<Rightarrow> n
                  | None \<Rightarrow> if ''index'' \<in> set (columns frame) then ''level_0'' else ''index'')
      in if name \<in> set (columns frame) then Inl ValueError
         else Inr \<lparr>cols = (name, index frame) # cols frame,
                   index = range_index (nrows frame),
                   index_name = None\<rparr>)"

text \<open>\<^verbatim>\<open>frame.reset_index(drop=True)\<close>: the rows are relabelled, the labels dropped.\<close>

definition reset_index_drop :: "dataframe \<Rightarrow> dataframe" where
  "reset_index_drop frame = frame\<lparr>index := range_index (nrows frame), index_name := None\<rparr>"

subsection \<open>Dates\<close>

text \<open>
  \<^verbatim>\<open>pd.to_datetime(column.astype(str), format='%Y%m%d')\<close> converts the cells one by one
  and raises at the first cell it cannot convert. The conversion of one cell belongs to
  pandas, not to this repository: it is the parameter \<open>parse\<close>.
\<close>

fun to_datetime :: "(val \<Rightarrow> error + val) \<Rightarrow> val list \<Rightarrow> error + val list" where
  "to_datetime parse [] = Inr []"
| "to_datetime parse (v # vs) =
     (case parse v of
        Inl e \<Rightarrow> Inl e
      | Inr d \<Rightarrow> (case to_datetime parse vs of Inl e \<Rightarrow> Inl e | Inr ds \<Rightarrow> Inr (d # ds)))"

fun timestamps :: "val list \<Rightarrow> int list" where
  "timestamps [] = []"
| "timestamps (VDate t # vs) = t # timestamps vs"
| "timestamps (v # vs) = timestamps vs"

fun date_or_null :: "val \<Rightarrow> bool" where
  "date_or_null (VDate t) = True"
| "date_or_null VNull = True"
| "date_or_null v = False"

text \<open>
  \<^verbatim>\<open>column.min()\<close> and \<^verbatim>\<open>column.max()\<close> of a column of timestamps: nulls are
  skipped, and the result is null when nothing is left.
\<close>

definition column_min :: "val list \<Rightarrow> error + val" where
  "column_min vs =
     (if \<not> list_all date_or_null vs then Inl NotModelled
      else Inr (case timestamps vs of [] \<Rightarrow> VNull | t # ts \<Rightarrow> VDate (fold min ts t)))"

definition column_max :: "val list \<Rightarrow> error + val" where
  "column_max vs =
     (if \<not> list_all date_or_null vs then Inl NotModelled
      else Inr (case timestamps vs of [] \<Rightarrow> VNull | t # ts \<Rightarrow> VDate (fold max ts t)))"

section \<open>The processor\<close>

text \<open>The attributes of a \<^verbatim>\<open>DataFrameProcessor\<close>.\<close>

record processor =
  target :: string
  date_column :: string
  label :: string
  graph :: string
  withGraph :: bool
  df :: dataframe
  filter_columns :: "string list"
  min_date :: val
  max_date :: val

text \<open>
  \<^verbatim>\<open>__init__\<close>. A constructor that raises leaves no object behind, so the result is
  an error or the new processor.
\<close>

definition init ::
  "(val \<Rightarrow> error + val) \<Rightarrow> dataframe \<Rightarrow> string list \<Rightarrow> string \<Rightarrow> string \<Rightarrow> string \<Rightarrow> string \<Rightarrow> bool
     \<Rightarrow> error + processor" where
  "init parse frame exclude_columns_from_filter date_col tgt lbl grph with_graph =
     (case reset_index frame of
        Inl e \<Rightarrow> Inl e
      | Inr frame1 \<Rightarrow>
     (case getitem frame1 date_col of
        Inl e \<Rightarrow> Inl e
      | Inr raw \<Rightarrow>
     (case to_datetime parse raw of
        Inl e \<Rightarrow> Inl e
      | Inr dates \<Rightarrow>
     (let frame2 = set_column frame1 date_col dates;
          frame3 = (if with_graph then set_scalar frame2 grph (VStr lbl) else frame2)
      in case getitem frame3 date_col of
           Inl e \<Rightarrow> Inl e
         | Inr ds \<Rightarrow>
        (case column_min ds of
           Inl e \<Rightarrow> Inl e
         | Inr lo \<Rightarrow>
        (case column_max ds of
           Inl e \<Rightarrow> Inl e
         | Inr hi \<Rightarrow>
             Inr \<lparr>target = tgt, date_column = date_col, label = lbl, graph = grph,
                  withGraph = with_graph, df = frame3,
                  filter_columns = filter (\<lambda>c. c \<notin> set exclude_columns_from_filter) (columns frame),
                  min_date = lo, max_date = hi\<rparr>))))))"


text \<open>
  \<^verbatim>\<open>insert_empty_row_at_pos\<close>. The empty row is a dictionary over the columns, so it
  has each column name once; the two slices are Python slices.
\<close>

definition insert_empty_row_at_pos :: "processor \<Rightarrow> int \<Rightarrow> processor \<times> (error + unit)" where
  "insert_empty_row_at_pos s pos =
     (let empty_row = \<lparr>cols = map (\<lambda>c. (c, [VNull])) (uniq (columns (df s))),
                       index = [VInt 0], index_name = None\<rparr>;
          s1 = s\<lparr>df := concat_ignore_index [iloc_to (df s) pos, empty_row, iloc_from (df s) pos]\<rparr>
      in (s1\<lparr>df := reset_index_drop (df s1)\<rparr>, Inr ()))"

definition change_target :: "processor \<Rightarrow> string \<Rightarrow> processor \<times> (error + unit)" where
  "change_target s tgt = (s\<lparr>target := tgt\<rparr>, Inr ())"

subsection \<open>Comparisons\<close>

text \<open>
  Comparing a column with a value. A null cell is equal to nothing, and nothing is equal
  to a null value (a \<^verbatim>\<open>NaN\<close> or \<^verbatim>\<open>NaT\<close>). Where a timestamp meets a string or a
  number, pandas converts one to the kind of the other before it compares (it reads a
  string as a date); the model does not describe that.
\<close>

fun is_date :: "val \<Rightarrow> bool" where
  "is_date (VDate t) = True"
| "is_date v = False"

definition converts :: "val \<Rightarrow> val \<Rightarrow> bool" where
  "converts a b \<longleftrightarrow> a \<noteq> VNull \<and> b \<noteq> VNull \<and> is_date a \<noteq> is_date b"

definition pd_eq :: "val \<Rightarrow> val \<Rightarrow> bool" where
  "pd_eq a b \<longleftrightarrow> a \<noteq> VNull \<and> b \<noteq> VNull \<and> a = b"

text \<open>\<^verbatim>\<open>column == x\<close>, cell by cell.\<close>

definition column_eq :: "val list \<Rightarrow> val \<Rightarrow> error + bool list" where
  "column_eq column x =
     (if list_ex (\<lambda>cell. converts cell x) column then Inl NotModelled
      else Inr (map (\<lambda>cell. pd_eq cell x) column))"

text \<open>
  \<^verbatim>\<open>column.isin(vs)\<close>, cell by cell. Whether a null cell is a member of a list that
  holds a null depends on the kinds of the two nulls; the model does not describe it.
\<close>

definition column_isin :: "val list \<Rightarrow> val list \<Rightarrow> error + bool list" where
  "column_isin column vs =
     (if VNull \<in> set vs \<or> list_ex (\<lambda>cell. list_ex (converts cell) vs) column
      then Inl NotModelled
      else Inr (map (\<lambda>cell. cell \<in> set vs) column))"

subsection \<open>Filtering\<close>







subsection \<open>Aggregation\<close>

text \<open>The integers of an \<^verbatim>\<open>int64\<close> column, and the value that such a column keeps of a sum.\<close>

definition int64_ok :: "int \<Rightarrow> bool" where
  "int64_ok n \<longleftrightarrow> - 9223372036854775808 \<le> n \<and> n \<le> 9223372036854775807"

definition wrap_int64 :: "int \<Rightarrow> int" where
  "wrap_int64 n = (n + 9223372036854775808) mod 18446744073709551616 - 9223372036854775808"

fun int64_values :: "val list \<Rightarrow> int list option" where
  "int64_values [] = Some []"
| "int64_values (VInt n # vs) =
     (if int64_ok n then map_option ((#) n) (int64_values vs) else None)"
| "int64_values (v # vs) = None"

text \<open>
  \<^verbatim>\<open>frame.groupby([key], as_index=False)[tgt].sum()\<close>: one row for each value of the
  key column, in ascending order of the keys; rows whose key is null belong to no group.
  The model covers a key column of timestamps and nulls and a summed column of 64-bit
  integers (a column of numbers with a null among them is a floating point column). The
  sum of a group is made in 64-bit arithmetic, which wraps around.
\<close>

definition groupby_sum :: "dataframe \<Rightarrow> string \<Rightarrow> string \<Rightarrow> error + dataframe" where
  "groupby_sum frame key tgt =
     (case getitem frame key of
        Inl e \<Rightarrow> Inl e
      | Inr ks \<Rightarrow>
     (case getitem frame tgt of
        Inl e \<Rightarrow> Inl e
      | Inr vs \<Rightarrow>
          if key = tgt \<or> \<not> list_all date_or_null ks then Inl NotModelled
          else
            (case int64_values vs of
               None \<Rightarrow> Inl NotModelled
             | Some ns \<Rightarrow>
                 (let keys = sort (remdups (timestamps ks))
                  in Inr \<lparr>cols = [(key, map VDate keys),
                                  (tgt, map (\<lambda>k. VInt (wrap_int64 (sum_list (map snd
                                           (filter (\<lambda>(k', n). k' = VDate k) (zip ks ns)))))) keys)],
                           index = range_index (length keys),
                           index_name = None\<rparr>))))"

definition aggregate :: "processor \<Rightarrow> bool \<Rightarrow> processor \<times> (error + dataframe option)" where
  "aggregate s inplace =
     (case groupby_sum (df s) (date_column s) (target s) of
        Inl e \<Rightarrow> (s, Inl e)
      | Inr grouped \<Rightarrow>
          (let data = set_scalar grouped (graph s) (VStr (target s))
           in if inplace then (s\<lparr>df := data\<rparr>, Inr None) else (s, Inr (Some data))))"

subsection \<open>Aggregation by time span\<close>

definition ns_per_day :: int where
  "ns_per_day = 86400000000000"

text \<open>
  A \<^verbatim>\<open>Timestamp\<close> and a \<^verbatim>\<open>Timedelta\<close> hold their nanoseconds in 64 bits, the
  least value standing for \<^verbatim>\<open>NaT\<close>.
\<close>

definition timestamp_ok :: "int \<Rightarrow> bool" where
  "timestamp_ok t \<longleftrightarrow> - 9223372036854775807 \<le> t \<and> t \<le> 9223372036854775807"

text \<open>
  \<^verbatim>\<open>(end - start).days\<close>: the whole days of the difference, rounded down. The
  subtraction raises \<^verbatim>\<open>OutOfBoundsDatetime\<close> when the difference does not fit 64
  bits. A difference that is the least 64-bit value is not a \<^verbatim>\<open>Timedelta\<close>, which
  the model does not describe.
\<close>

definition timedelta_days :: "int \<Rightarrow> int \<Rightarrow> error + int" where
  "timedelta_days start end =
     (if \<not> timestamp_ok start \<or> \<not> timestamp_ok end then Inl NotModelled
      else if end - start < - 9223372036854775808 \<or> 9223372036854775807 < end - start
      then Inl OutOfBoundsDatetime
      else if end - start = - 9223372036854775808 then Inl NotModelled
      else Inr ((end - start) div ns_per_day))"

text \<open>
  The three branches of \<^verbatim>\<open>aggregate_by_timespan\<close> differ in the rule they pass to
  \<^verbatim>\<open>resample\<close> only: \<open>M\<close> (months), \<open>W\<close> (weeks) or \<open>D\<close> (days).
\<close>

definition timespan_rule :: "int \<Rightarrow> int \<Rightarrow> error + string" where
  "timespan_rule start end =
     (case timedelta_days start end of
        Inl e \<Rightarrow> Inl e
      | Inr days \<Rightarrow> Inr (if days > 365 then ''M'' else if days > 90 then ''W'' else ''D''))"


subsection \<open>Predictions\<close>

text \<open>
  The rows that \<^verbatim>\<open>add_prediction\<close> selects: the last \<open>last_n_rows\<close> of the rows
  whose series cell is the name of the target column.
\<close>

definition selected_rows :: "processor \<Rightarrow> int \<Rightarrow> error + dataframe" where
  "selected_rows s last_n_rows =
     (case getitem (df s) (graph s) of
        Inl e \<Rightarrow> Inl e
      | Inr gs \<Rightarrow>
          (case column_eq gs (VStr (target s)) of
             Inl e \<Rightarrow> Inl e
           | Inr hits \<Rightarrow> Inr (tail (boolean_index (df s) hits) last_n_rows)))"

text \<open>
  \<^verbatim>\<open>add_prediction\<close>. \<open>predict\<close> is the caller's function; what it returns is
  assigned to the target column of the selected rows.
\<close>

definition add_prediction ::
  "processor \<Rightarrow> string \<Rightarrow> int \<Rightarrow> (dataframe \<Rightarrow> assigned) \<Rightarrow> bool
     \<Rightarrow> processor \<times> (error + dataframe option)" where
  "add_prediction s lbl last_n_rows predict inplace =
     (if \<not> withGraph s then (s, Inr (Some (df s)))
      else
        (case selected_rows s last_n_rows of
           Inl e \<Rightarrow> (s, Inl e)
         | Inr rows \<Rightarrow>
        (case setitem rows (target s) (predict rows) of
           Inl e \<Rightarrow> (s, Inl e)
         | Inr rows1 \<Rightarrow>
             (let rows2 = set_scalar rows1 (graph s) (VStr lbl);
                  data = concat_ignore_index [df s, rows2]
              in if inplace then (s\<lparr>df := data\<rparr>, Inr None) else (s, Inr (Some data))))))"

text \<open>
  The table a call has produced: the one it returned, or the processor's own after a
  call that worked in place.
\<close>

fun produced :: "processor \<times> (error + dataframe option) \<Rightarrow> dataframe option" where
  "produced (s, Inl e) = None"
| "produced (s, Inr None) = Some (df s)"
| "produced (s, Inr (Some t)) = Some t"

section \<open>The specification's wording\<close>





section \<open>A table of sales\<close>

text \<open>
  The conversion of a cell that holds a date as eight digits, \<open>YYYYMMDD\<close>, to the
  timestamp of that day at midnight, for the years 1678 to 2261. It stands for pandas'
  conversion in the examples and describes no other cell; the theorems below hold for
  every conversion.
\<close>

definition days_from_civil :: "int \<Rightarrow> int \<Rightarrow> int \<Rightarrow> int" where
  "days_from_civil y m d =
     (let y' = (if m \<le> 2 then y - 1 else y);
          era = y' div 400;
          yoe = y' - era * 400;
          doy = (153 * ((m + 9) mod 12) + 2) div 5 + d - 1;
          doe = yoe * 365 + yoe div 4 - yoe div 100 + doy
      in era * 146097 + doe - 719468)"

definition days_in_month :: "int \<Rightarrow> int \<Rightarrow> int" where
  "days_in_month y m =
     (if m = 2 then (if y mod 4 = 0 \<and> (y mod 100 \<noteq> 0 \<or> y mod 400 = 0) then 29 else 28)
      else if m \<in> {4, 6, 9, 11} then 30 else 31)"

definition digit :: "char \<Rightarrow> int option" where
  "digit c = (let k = (of_char c :: nat) in if 48 \<le> k \<and> k \<le> 57 then Some (int k - 48) else None)"

fun decimal :: "string \<Rightarrow> int \<Rightarrow> int option" where
  "decimal [] acc = Some acc"
| "decimal (c # cs) acc = (case digit c of None \<Rightarrow> None | Some k \<Rightarrow> decimal cs (10 * acc + k))"

fun eight_digits :: "val \<Rightarrow> int option" where
  "eight_digits (VInt n) = (if 10000000 \<le> n \<and> n \<le> 99999999 then Some n else None)"
| "eight_digits (VStr s) = (if length s = 8 then decimal s 0 else None)"
| "eight_digits v = None"

text \<open>The timestamp of day number \<open>d\<close> (days since the epoch) at midnight.\<close>

definition midnight :: "int \<Rightarrow> int" where
  "midnight d = d * ns_per_day"

definition parse_yyyymmdd :: "val \<Rightarrow> error + val" where
  "parse_yyyymmdd v =
     (case eight_digits v of
        None \<Rightarrow> Inl NotModelled
      | Some n \<Rightarrow>
          (let y = n div 10000; m = n div 100 mod 100; d = n mod 100
           in if 1678 \<le> y \<and> y \<le> 2261 \<and> 1 \<le> m \<and> m \<le> 12 \<and> 1 \<le> d \<and> d \<le> days_in_month y m
              then Inr (VDate (midnight (days_from_civil y m d)))
              else Inl NotModelled))"

text \<open>
  Three sales on two days, 1 and 2 January 2023, as a caller would pass them; the same
  table with a column called \<open>index\<close>; and the processor built from the first, with
  and without a series column.
\<close>

definition sales :: dataframe where
  "sales = \<lparr>cols = [(''date'', [VInt 20230101, VInt 20230101, VInt 20230102]),
                    (''v'', [VInt 5, VInt 3, VInt 2])],
            index = [VInt 0, VInt 1, VInt 2], index_name = None\<rparr>"

definition indexed_sales :: dataframe where
  "indexed_sales = \<lparr>cols = [(''index'', [VInt 10, VInt 11, VInt 12]),
                            (''date'', [VInt 20230101, VInt 20230101, VInt 20230102]),
                            (''v'', [VInt 5, VInt 3, VInt 2])],
                    index = [VInt 0, VInt 1, VInt 2], index_name = None\<rparr>"

definition sales_processor :: "bool \<Rightarrow> processor" where
  "sales_processor with_graph =
     \<lparr>target = ''v'', date_column = ''date'', label = ''actual'', graph = ''series'',
      withGraph = with_graph,
      df = \<lparr>cols = [(''index'', [VInt 0, VInt 1, VInt 2]),
                    (''date'', [VDate 1672531200000000000, VDate 1672531200000000000,
                                VDate 1672617600000000000]),
                    (''v'', [VInt 5, VInt 3, VInt 2])]
                   @ (if with_graph
                      then [(''series'', [VStr ''actual'', VStr ''actual'', VStr ''actual''])]
                      else []),
            index = [VInt 0, VInt 1, VInt 2], index_name = None\<rparr>,
      filter_columns = [''date'', ''v''],
      min_date = VDate 1672531200000000000, max_date = VDate 1672617600000000000\<rparr>"

text \<open>The totals per day: the table of \<open>sales_processor\<close> after \<^verbatim>\<open>aggregate\<close>.\<close>

definition totals :: dataframe where
  "totals = \<lparr>cols = [(''date'', [VDate 1672531200000000000, VDate 1672617600000000000]),
                     (''v'', [VInt 8, VInt 2]),
                     (''series'', [VStr ''v'', VStr ''v''])],
             index = [VInt 0, VInt 1], index_name = None\<rparr>"

section \<open>Basic facts\<close>

lemma range_index_0: "range_index 0 = []"
  by (simp add: range_index_def)

lemma range_index_Suc: "range_index (Suc n) = range_index n @ [VInt (int n)]"
  by (simp add: range_index_def)


lemma nrows_set_column: "nrows (set_column frame c vs) = nrows frame"
  by (simp add: nrows_def set_column_def)


lemma columns_set_column:
  "columns (set_column frame c vs) = (if c \<in> set (columns frame) then columns frame else columns frame @ [c])"
  by (simp add: columns_def set_column_def update_keys)

lemma columns_set_scalar:
  "columns (set_scalar frame c v) = (if c \<in> set (columns frame) then columns frame else columns frame @ [c])"
  by (simp add: set_scalar_def columns_set_column)

lemma getitem_set_scalar_other:
  "c' \<noteq> c \<Longrightarrow> getitem (set_scalar frame c v) c' = getitem frame c'"
  by (simp add: set_scalar_def getitem_def set_column_def update_conv')

lemma getitem_set_column_other:
  "c' \<noteq> c \<Longrightarrow> getitem (set_column frame c vs) c' = getitem frame c'"
  by (simp add: getitem_def set_column_def update_conv')

lemma getitem_columns: "getitem frame c = Inr vs \<Longrightarrow> c \<in> set (columns frame)"
  by (auto simp: getitem_def columns_def split: option.splits dest: map_of_SomeD intro: rev_image_eqI)

lemma uniq_distinct: "distinct xs \<Longrightarrow> uniq xs = xs"
  by (simp add: uniq_def distinct_remdups_id)

lemma remdups_absorb: "set xs \<subseteq> set ys \<Longrightarrow> remdups (xs @ ys) = remdups ys"
  by (induction xs) auto

lemma uniq_repeat: "distinct xs \<Longrightarrow> uniq (xs @ xs @ xs) = xs"
  by (simp add: uniq_def remdups_absorb distinct_remdups_id)

lemma columns_map_rows: "columns (map_rows f frame) = columns frame"
  by (simp add: columns_def map_rows_def case_prod_unfold)

lemma nrows_map_rows: "nrows (map_rows f frame) = length (f (index frame))"
  by (simp add: nrows_def map_rows_def)

lemma column_or_nulls_map_rows:
  "distinct (columns frame) \<Longrightarrow> (c, vs) \<in> set (cols frame) \<Longrightarrow>
     column_or_nulls c (map_rows f frame) = f vs"
proof -
  assume "distinct (columns frame)" and "(c, vs) \<in> set (cols frame)"
  then have "map_of (cols frame) c = Some vs"
    by (simp add: columns_def)
  then have "map_of (map (\<lambda>(c, vs). (c, f vs)) (cols frame)) c = Some (f vs)"
    by (simp add: map_of_map)
  then show ?thesis
    by (simp add: column_or_nulls_def map_rows_def)
qed

lemma slice_bound_le: "slice_bound n pos \<le> n"
  by (auto simp: slice_bound_def)

subsection \<open>The examples\<close>

text \<open>The definitions that evaluate a table operation on a given table.\<close>

lemmas frame_eval = getitem_def set_column_def set_scalar_def nrows_def columns_def
  range_index_0 range_index_Suc map_rows_def boolean_index_def select_def iloc_to_def
  iloc_from_def tail_def slice_bound_def concat_ignore_index_def column_or_nulls_def uniq_def
  reset_index_drop_def reset_index_def ensure_valid_index_def setitem_def pd_eq_def
  column_eq_def column_isin_def converts_def


lemma parse_day1: "parse_yyyymmdd (VInt 20230101) = Inr (VDate 1672531200000000000)"
  by (simp add: parse_yyyymmdd_def days_from_civil_def days_in_month_def midnight_def ns_per_day_def)

lemma parse_day2: "parse_yyyymmdd (VInt 20230102) = Inr (VDate 1672617600000000000)"
  by (simp add: parse_yyyymmdd_def days_from_civil_def days_in_month_def midnight_def ns_per_day_def)

lemma init_sales:
  "init parse_yyyymmdd sales [] ''date'' ''v'' ''actual'' ''series'' with_graph
     = Inr (sales_processor with_graph)"
  by (simp add: init_def sales_def sales_processor_def reset_index_def columns_def nrows_def
      getitem_def set_column_def set_scalar_def parse_day1 parse_day2 column_min_def column_max_def
      range_index_0 range_index_Suc)

lemma aggregate_sales:
  "aggregate (sales_processor True) True = ((sales_processor True)\<lparr>df := totals\<rparr>, Inr None)"
  by (simp add: aggregate_def groupby_sum_def sales_processor_def totals_def getitem_def
      set_scalar_def set_column_def nrows_def range_index_0 range_index_Suc int64_ok_def
      wrap_int64_def)

section \<open>The bucket of a time span\<close>


lemma timedelta_days_in_range:
  assumes "timestamp_ok start" and "timestamp_ok end"
    and "- 9223372036854775808 < end - start" and "end - start \<le> 9223372036854775807"
  shows "timedelta_days start end = Inr ((end - start) div ns_per_day)"
  using assms by (simp add: timedelta_days_def)



text \<open>
  Two days at midnight, at most 106751 days apart, which is as far as a \<^verbatim>\<open>Timedelta\<close>
  reaches in whole days.
\<close>

lemma midnight_difference: "midnight b - midnight a = (b - a) * ns_per_day"
  by (simp add: midnight_def left_diff_distrib)

lemma timespan_rule_midnight:
  assumes "timestamp_ok (midnight a)" and "timestamp_ok (midnight b)"
    and "- 106751 \<le> b - a" and "b - a \<le> 106751"
  shows "timespan_rule (midnight a) (midnight b) =
     Inr (if 365 < b - a then ''M'' else if 90 < b - a then ''W'' else ''D'')"
proof -
  have lo: "- 9223372036854775808 < midnight b - midnight a"
    using assms(3) by (simp add: midnight_difference ns_per_day_def)
  have hi: "midnight b - midnight a \<le> 9223372036854775807"
    using assms(4) by (simp add: midnight_difference ns_per_day_def)
  have d: "(midnight b - midnight a) div ns_per_day = b - a"
    by (simp add: midnight_difference ns_per_day_def)
  show ?thesis
    unfolding timespan_rule_def timedelta_days_in_range [OF assms(1,2) lo hi] d
    by (simp only: sum.case)
qed

text \<open>
  The four spans of the specification's property P4, measured as the code measures
  them, by the difference of the two dates.
\<close>

lemma timespan_rule_instances:
  assumes "timestamp_ok (midnight a)" and "timestamp_ok (midnight (a + 366))"
  shows "timespan_rule (midnight a) (midnight (a + 366)) = Inr ''M''"
    and "timespan_rule (midnight a) (midnight (a + 365)) = Inr ''W''"
    and "timespan_rule (midnight a) (midnight (a + 91)) = Inr ''W''"
    and "timespan_rule (midnight a) (midnight (a + 90)) = Inr ''D''"
proof -
  have ok: "timestamp_ok (midnight (a + k))" if "0 \<le> k" and "k \<le> 366" for k
    using assms that by (simp add: timestamp_ok_def midnight_def ns_per_day_def)
  show "timespan_rule (midnight a) (midnight (a + 366)) = Inr ''M''"
    using timespan_rule_midnight [OF assms(1) ok [of 366]] by simp
  show "timespan_rule (midnight a) (midnight (a + 365)) = Inr ''W''"
    using timespan_rule_midnight [OF assms(1) ok [of 365]] by simp
  show "timespan_rule (midnight a) (midnight (a + 91)) = Inr ''W''"
    using timespan_rule_midnight [OF assms(1) ok [of 91]] by simp
  show "timespan_rule (midnight a) (midnight (a + 90)) = Inr ''D''"
    using timespan_rule_midnight [OF assms(1) ok [of 90]] by simp
qed





section \<open>The series column of an aggregation\<close>



section \<open>Predictions\<close>

text \<open>
  C8. Without a series column \<^verbatim>\<open>add_prediction\<close> returns the processor's table as
  it is and changes nothing in the processor, whatever the label, the number of rows and
  the prediction function are; the function is not applied.
\<close>

theorem add_prediction_without_graph:
  "\<not> withGraph s \<Longrightarrow> add_prediction s lbl last_n_rows predict inplace = (s, Inr (Some (df s)))"
  by (simp add: add_prediction_def)

theorem add_prediction_without_graph_witness:
  "\<not> withGraph (sales_processor False) \<and>
   add_prediction (sales_processor False) ''forecast'' 2 (\<lambda>rows. ListLike [VInt 7]) True
     = (sales_processor False, Inr (Some (df (sales_processor False))))"
  using add_prediction_without_graph
    [of "sales_processor False" "''forecast''" 2 "\<lambda>rows. ListLike [VInt 7]" True]
  by (simp add: sales_processor_def)

text \<open>
  C2, as the specification states it, fails. \<^verbatim>\<open>add_prediction\<close> has no check of the
  length of the prediction; what pandas does with it depends on its kind. A Series is
  aligned by row label: here the prediction function returns a Series with one value
  for the two selected rows, the call returns normally, and the table of the processor
  has changed.
\<close>

theorem add_prediction_series_counterexample:
  "withGraph ((sales_processor True)\<lparr>df := totals\<rparr>) \<and>
   selected_rows ((sales_processor True)\<lparr>df := totals\<rparr>) 2 = Inr totals \<and>
   nrows totals = 2 \<and>
   add_prediction ((sales_processor True)\<lparr>df := totals\<rparr>) ''forecast'' 2
       (\<lambda>rows. SeriesLike [(VInt 0, VInt 9)]) True
     = ((sales_processor True)\<lparr>df :=
          \<lparr>cols = [(''date'', [VDate 1672531200000000000, VDate 1672617600000000000,
                               VDate 1672531200000000000, VDate 1672617600000000000]),
                    (''v'', [VInt 8, VInt 2, VInt 9, VNull]),
                    (''series'', [VStr ''v'', VStr ''v'', VStr ''forecast'', VStr ''forecast''])],
           index = [VInt 0, VInt 1, VInt 2, VInt 3], index_name = None\<rparr>\<rparr>, Inr None)"
proof -
  have sel: "selected_rows ((sales_processor True)\<lparr>df := totals\<rparr>) 2 = Inr totals"
    by (simp add: selected_rows_def sales_processor_def totals_def frame_eval)
  have n: "nrows totals = 2"
    by (simp add: totals_def nrows_def)
  have "add_prediction ((sales_processor True)\<lparr>df := totals\<rparr>) ''forecast'' 2
       (\<lambda>rows. SeriesLike [(VInt 0, VInt 9)]) True
     = ((sales_processor True)\<lparr>df :=
          \<lparr>cols = [(''date'', [VDate 1672531200000000000, VDate 1672617600000000000,
                               VDate 1672531200000000000, VDate 1672617600000000000]),
                    (''v'', [VInt 8, VInt 2, VInt 9, VNull]),
                    (''series'', [VStr ''v'', VStr ''v'', VStr ''forecast'', VStr ''forecast''])],
           index = [VInt 0, VInt 1, VInt 2, VInt 3], index_name = None\<rparr>\<rparr>, Inr None)"
    unfolding add_prediction_def sel
    by (simp add: sales_processor_def totals_def frame_eval)
  with sel n show ?thesis
    by (simp add: sales_processor_def)
qed

text \<open>
  C2, amended. When \<^verbatim>\<open>withGraph\<close> is true, at least one row is selected and the
  prediction function returns a plain list whose length is not the number of selected
  rows, the assignment of the prediction raises \<^verbatim>\<open>ValueError\<close>, and the processor
  is left as it was, whatever \<^verbatim>\<open>inplace\<close> is.
\<close>

theorem add_prediction_wrong_length:
  assumes "withGraph s"
    and "selected_rows s last_n_rows = Inr rows"
    and "predict rows = ListLike vs"
    and "length vs \<noteq> nrows rows"
    and "0 < nrows rows"
  shows "add_prediction s lbl last_n_rows predict inplace = (s, Inl ValueError)"
  using assms by (simp add: add_prediction_def setitem_def ensure_valid_index_def)

theorem add_prediction_wrong_length_witness:
  "withGraph ((sales_processor True)\<lparr>df := totals\<rparr>) \<and>
   selected_rows ((sales_processor True)\<lparr>df := totals\<rparr>) 2 = Inr totals \<and>
   length [VInt 9] \<noteq> nrows totals \<and> 0 < nrows totals \<and>
   add_prediction ((sales_processor True)\<lparr>df := totals\<rparr>) ''forecast'' 2 (\<lambda>rows. ListLike [VInt 9]) True
     = ((sales_processor True)\<lparr>df := totals\<rparr>, Inl ValueError)"
proof -
  have sel: "selected_rows ((sales_processor True)\<lparr>df := totals\<rparr>) 2 = Inr totals"
    by (simp add: selected_rows_def sales_processor_def totals_def frame_eval)
  have n: "nrows totals = 2"
    by (simp add: totals_def nrows_def)
  show ?thesis
    using add_prediction_wrong_length [of "(sales_processor True)\<lparr>df := totals\<rparr>" 2 totals
        "\<lambda>rows. ListLike [VInt 9]" "[VInt 9]" "''forecast''" True] sel n
    by (simp add: sales_processor_def)
qed

section \<open>Resetting the table\<close>


lemma to_datetime_total:
  "(\<exists>dates. to_datetime parse raw = Inr dates) \<longleftrightarrow> list_all (\<lambda>v. \<exists>d. parse v = Inr d) raw"
  by (induction raw) (auto split: sum.splits)



section \<open>Inserting an empty row\<close>

text \<open>
  C3, as the specification states it, fails. Position 7 is outside the range of a table
  of three rows; \<^verbatim>\<open>insert_empty_row_at_pos\<close> raises nothing and appends the empty row.
\<close>

theorem insert_out_of_range_counterexample:
  "\<not> (0 \<le> (7::int) \<and> 7 \<le> int (nrows (df (sales_processor False)))) \<and>
   insert_empty_row_at_pos (sales_processor False) 7 =
     ((sales_processor False)\<lparr>df :=
        \<lparr>cols = [(''index'', [VInt 0, VInt 1, VInt 2, VNull]),
                  (''date'', [VDate 1672531200000000000, VDate 1672531200000000000,
                              VDate 1672617600000000000, VNull]),
                  (''v'', [VInt 5, VInt 3, VInt 2, VNull])],
         index = [VInt 0, VInt 1, VInt 2, VInt 3], index_name = None\<rparr>\<rparr>, Inr ())"
  by (simp add: insert_empty_row_at_pos_def sales_processor_def frame_eval)

text \<open>
  C3, amended. \<^verbatim>\<open>insert_empty_row_at_pos\<close> never raises. It puts one row of nulls
  before the row at the position that a Python slice makes of \<open>pos\<close>, and relabels the
  rows \<open>0, 1, ...\<close>: for \<open>pos\<close> from 0 to the number of rows that position is \<open>pos\<close>
  itself, so the rows from there on move down by one; a larger \<open>pos\<close> appends the
  row, and a negative one counts from the end.
\<close>

theorem insert_empty_row_at_any_pos:
  assumes "distinct (columns (df s))"
  shows "insert_empty_row_at_pos s pos =
     (let n = nrows (df s);
          k = (if pos < 0 then nat (max 0 (int n + pos)) else min (nat pos) n)
      in (s\<lparr>df := \<lparr>cols = map (\<lambda>(c, vs). (c, take k vs @ [VNull] @ drop k vs)) (cols (df s)),
                    index = range_index (n + 1), index_name = None\<rparr>\<rparr>, Inr ())) \<and>
   (0 \<le> pos \<and> pos \<le> int (nrows (df s)) \<longrightarrow>
      (if pos < 0 then nat (max 0 (int (nrows (df s)) + pos)) else min (nat pos) (nrows (df s))) = nat pos)"
proof -
  define n where "n = nrows (df s)"
  define k where "k = slice_bound n pos"
  define empty_row where
    "empty_row = \<lparr>cols = map (\<lambda>c. (c, [VNull])) (uniq (columns (df s))), index = [VInt 0], index_name = None\<rparr>"
  have k: "k = (if pos < 0 then nat (max 0 (int n + pos)) else min (nat pos) n)"
    by (simp add: k_def slice_bound_def)
  have kn: "k \<le> n" by (simp add: k_def slice_bound_le)
  have cols_empty: "columns empty_row = columns (df s)"
    using assms by (simp add: empty_row_def columns_def uniq_distinct comp_def)
  have names: "uniq (concat (map columns [iloc_to (df s) pos, empty_row, iloc_from (df s) pos]))
      = columns (df s)"
    using assms by (simp add: iloc_to_def iloc_from_def columns_map_rows cols_empty uniq_repeat)
  have cell: "concat (map (column_or_nulls c) [iloc_to (df s) pos, empty_row, iloc_from (df s) pos])
      = take k vs @ [VNull] @ drop k vs" if "(c, vs) \<in> set (cols (df s))" for c vs
  proof -
    have "c \<in> set (columns (df s))" using that by (force simp: columns_def)
    then have "map_of (cols empty_row) c = Some [VNull]"
      using assms by (simp add: empty_row_def uniq_distinct map_of_map_restrict)
    then have "column_or_nulls c empty_row = [VNull]"
      by (simp add: column_or_nulls_def)
    then show ?thesis
      using assms that
      by (simp add: iloc_to_def iloc_from_def column_or_nulls_map_rows k_def n_def)
  qed
  have rows: "sum_list (map nrows [iloc_to (df s) pos, empty_row, iloc_from (df s) pos]) = n + 1"
    using kn by (simp add: iloc_to_def iloc_from_def nrows_map_rows empty_row_def k_def [symmetric]
        n_def [symmetric]) (simp add: nrows_def n_def)
  have "concat_ignore_index [iloc_to (df s) pos, empty_row, iloc_from (df s) pos] =
      \<lparr>cols = map (\<lambda>(c, vs). (c, take k vs @ [VNull] @ drop k vs)) (cols (df s)),
       index = range_index (n + 1), index_name = None\<rparr>"
    unfolding concat_ignore_index_def names rows
    using cell by (auto simp: columns_def)
  then have "insert_empty_row_at_pos s pos =
      (s\<lparr>df := \<lparr>cols = map (\<lambda>(c, vs). (c, take k vs @ [VNull] @ drop k vs)) (cols (df s)),
                  index = range_index (n + 1), index_name = None\<rparr>\<rparr>, Inr ())"
    by (simp add: insert_empty_row_at_pos_def empty_row_def [symmetric] reset_index_drop_def
        nrows_def range_index_def)
  then show ?thesis
    by (auto simp: Let_def k n_def)
qed

theorem insert_empty_row_at_any_pos_witness:
  "distinct (columns (df (sales_processor False))) \<and>
   (0::int) \<le> 1 \<and> 1 \<le> int (nrows (df (sales_processor False))) \<and>
   insert_empty_row_at_pos (sales_processor False) 1 =
     ((sales_processor False)\<lparr>df :=
        \<lparr>cols = [(''index'', [VInt 0, VNull, VInt 1, VInt 2]),
                  (''date'', [VDate 1672531200000000000, VNull, VDate 1672531200000000000,
                              VDate 1672617600000000000]),
                  (''v'', [VInt 5, VNull, VInt 3, VInt 2])],
         index = [VInt 0, VInt 1, VInt 2, VInt 3], index_name = None\<rparr>\<rparr>, Inr ())"
proof -
  have d: "distinct (columns (df (sales_processor False)))"
    by (simp add: sales_processor_def columns_def)
  show ?thesis
    using insert_empty_row_at_any_pos [OF d, of 1] d
    by (simp add: sales_processor_def nrows_def range_index_0 range_index_Suc)
qed

section \<open>Construction\<close>

text \<open>
  C9, as it is stated, fails on a table that has a column \<open>index\<close> already: the row
  labels go to a new column \<open>level_0\<close>, the column \<open>index\<close> keeps the cells of the
  input, and \<open>index\<close> is one of the \<^verbatim>\<open>filter_columns\<close>.
\<close>

theorem init_level_0_counterexample:
  "init parse_yyyymmdd indexed_sales [] ''date'' ''v'' ''actual'' ''series'' True =
     Inr \<lparr>target = ''v'', date_column = ''date'', label = ''actual'', graph = ''series'',
          withGraph = True,
          df = \<lparr>cols = [(''level_0'', [VInt 0, VInt 1, VInt 2]),
                        (''index'', [VInt 10, VInt 11, VInt 12]),
                        (''date'', [VDate 1672531200000000000, VDate 1672531200000000000,
                                    VDate 1672617600000000000]),
                        (''v'', [VInt 5, VInt 3, VInt 2]),
                        (''series'', [VStr ''actual'', VStr ''actual'', VStr ''actual''])],
                index = [VInt 0, VInt 1, VInt 2], index_name = None\<rparr>,
          filter_columns = [''index'', ''date'', ''v''],
          min_date = VDate 1672531200000000000, max_date = VDate 1672617600000000000\<rparr>"
  by (simp add: init_def indexed_sales_def frame_eval parse_day1 parse_day2 column_min_def
      column_max_def)

text \<open>
  C9, amended. When the input table has an unnamed index and no column \<open>index\<close>, and
  neither the date column nor the series column is called \<open>index\<close>, the table of the
  new processor has the columns of the input behind a new first column \<open>index\<close>, which
  holds the row labels of the input, and the series column last if it is new; its
  columns are not those of the input; \<^verbatim>\<open>filter_columns\<close> are the columns of the input
  that are not excluded, and \<open>index\<close> is not among them.
\<close>

theorem init_adds_index_column:
  assumes "init parse frame exclude_columns_from_filter date_col tgt lbl grph with_graph = Inr s"
    and "index_name frame = None"
    and "''index'' \<notin> set (columns frame)"
    and "date_col \<noteq> ''index''"
    and "with_graph \<longrightarrow> grph \<noteq> ''index''"
  shows "columns (df s) =
           ''index'' # columns frame @ (if with_graph \<and> grph \<notin> set (columns frame) then [grph] else []) \<and>
         getitem (df s) ''index'' = Inr (index frame) \<and>
         set (columns (df s)) \<noteq> set (columns frame) \<and>
         filter_columns s = filter (\<lambda>c. c \<notin> set exclude_columns_from_filter) (columns frame) \<and>
         ''index'' \<notin> set (filter_columns s)"
proof -
  define frame1 where "frame1 = \<lparr>cols = (''index'', index frame) # cols frame,
      index = range_index (nrows frame), index_name = None\<rparr>"
  have r: "reset_index frame = Inr frame1"
    using assms(2,3) by (simp add: reset_index_def frame1_def)
  from assms(1) obtain raw dates where
    raw: "getitem frame1 date_col = Inr raw" and
    s: "df s = (if with_graph then set_scalar (set_column frame1 date_col dates) grph (VStr lbl)
                else set_column frame1 date_col dates)" and
    fc: "filter_columns s = filter (\<lambda>c. c \<notin> set exclude_columns_from_filter) (columns frame)"
    unfolding init_def r by (auto simp: Let_def split: sum.splits)
  have c1: "columns frame1 = ''index'' # columns frame"
    by (simp add: frame1_def columns_def)
  have "date_col \<in> set (columns frame1)"
    using raw by (rule getitem_columns)
  then have c2: "columns (set_column frame1 date_col dates) = ''index'' # columns frame"
    by (simp add: columns_set_column c1)
  have g1: "getitem (set_column frame1 date_col dates) ''index'' = Inr (index frame)"
    using assms(4) by (simp add: getitem_set_column_other) (simp add: getitem_def frame1_def)
  have cols: "columns (df s) =
      ''index'' # columns frame @ (if with_graph \<and> grph \<notin> set (columns frame) then [grph] else [])"
    using assms(5) by (simp add: s columns_set_scalar c2)
  moreover have "getitem (df s) ''index'' = Inr (index frame)"
    using assms(5) g1 by (auto simp: s getitem_set_scalar_other)
  moreover have "set (columns (df s)) \<noteq> set (columns frame)"
    using assms(3) cols by auto
  ultimately show ?thesis
    using fc assms(3) by simp
qed

theorem init_adds_index_column_witness:
  "init parse_yyyymmdd sales [''v''] ''date'' ''v'' ''actual'' ''series'' True
     = Inr ((sales_processor True)\<lparr>filter_columns := [''date'']\<rparr>) \<and>
   index_name sales = None \<and> ''index'' \<notin> set (columns sales) \<and>
   columns (df (sales_processor True)) = [''index'', ''date'', ''v'', ''series''] \<and>
   getitem (df (sales_processor True)) ''index'' = Inr [VInt 0, VInt 1, VInt 2]"
proof -
  have i: "init parse_yyyymmdd sales [''v''] ''date'' ''v'' ''actual'' ''series'' True
     = Inr ((sales_processor True)\<lparr>filter_columns := [''date'']\<rparr>)"
    by (simp add: init_def sales_def sales_processor_def frame_eval parse_day1 parse_day2
        column_min_def column_max_def)
  show ?thesis
    using init_adds_index_column [OF i] i
    by (simp add: sales_def columns_def)
qed

section \<open>Filtering\<close>





















section \<open>Aggregation by date\<close>

lemma set_timestamps: "set (timestamps ks) = {t. VDate t \<in> set ks}"
  by (induction ks rule: timestamps.induct) auto

lemma sum_list_filter_nth:
  "sum_list (map f (filter P xs)) = (\<Sum>i | i < length xs \<and> P (xs ! i). f (xs ! i))"
proof (induction xs rule: rev_induct)
  case Nil
  then show ?case by simp
next
  case (snoc x xs)
  let ?A = "{i. i < length xs \<and> P (xs ! i)}"
  have split: "{i. i < length (xs @ [x]) \<and> P ((xs @ [x]) ! i)} =
      ?A \<union> (if P x then {length xs} else {})"
    by (auto simp: nth_append less_Suc_eq)
  have fin: "finite ?A" by simp
  have eq: "(\<Sum>i\<in>?A. f ((xs @ [x]) ! i)) = (\<Sum>i\<in>?A. f (xs ! i))"
    by (rule sum.cong) (auto simp: nth_append)
  show ?case
    unfolding split using snoc.IH fin eq by (simp add: sum.union_disjoint)
qed

lemma group_sum:
  assumes "length ks = length ns"
  shows "sum_list (map snd (filter (\<lambda>(k', n). k' = VDate k) (zip ks ns))) =
         (\<Sum>i | i < length ks \<and> ks ! i = VDate k. ns ! i)"
proof -
  have "sum_list (map snd (filter (\<lambda>(k', n). k' = VDate k) (zip ks ns))) =
      (\<Sum>i | i < length (zip ks ns) \<and> (\<lambda>(k', n). k' = VDate k) (zip ks ns ! i).
          snd (zip ks ns ! i))"
    by (rule sum_list_filter_nth)
  also have "\<dots> = (\<Sum>i | i < length ks \<and> ks ! i = VDate k. ns ! i)"
    using assms by (intro sum.cong) auto
  finally show ?thesis .
qed

lemma int64_values_VInt:
  "\<forall>n\<in>set ns. - 9223372036854775808 \<le> n \<and> n \<le> 9223372036854775807 \<Longrightarrow>
     int64_values (map VInt ns) = Some ns"
  by (induction ns) (auto simp: int64_ok_def)

lemma wrap_int64_eq:
  "wrap_int64 n =
     (if - 9223372036854775808 \<le> n \<and> n \<le> 9223372036854775807 then n
      else (n + 9223372036854775808) mod 18446744073709551616 - 9223372036854775808)"
  by (simp add: wrap_int64_def)

text \<open>
  The table of a processor that \<^verbatim>\<open>__init__\<close> has built has a date column of timestamps
  and nulls, as the aggregation below assumes.
\<close>

lemma init_date_column:
  assumes "init parse frame exclude_columns_from_filter date_col tgt lbl grph with_graph = Inr s"
  shows "\<exists>ks. getitem (df s) (date_column s) = Inr ks \<and> list_all date_or_null ks"
  using assms
  by (auto simp: init_def Let_def column_min_def split: sum.splits if_splits)

lemma nrows_set_scalar: "nrows (set_scalar frame c v) = nrows frame"
  by (simp add: set_scalar_def nrows_set_column)

text \<open>
  C4, as the specification states it, fails where a sum leaves the 64 bits of the target
  column: two rows of one date with the target \<open>2\<^sup>6\<^sup>2\<close> each give a row with the target
  \<open>- 2\<^sup>6\<^sup>3\<close>, not their sum \<open>2\<^sup>6\<^sup>3\<close>.
\<close>

theorem aggregate_overflow_counterexample:
  "aggregate
     ((sales_processor True)\<lparr>df :=
        \<lparr>cols = [(''date'', [VDate 1672531200000000000, VDate 1672531200000000000]),
                  (''v'', [VInt 4611686018427387904, VInt 4611686018427387904])],
         index = [VInt 0, VInt 1], index_name = None\<rparr>\<rparr>) False =
     ((sales_processor True)\<lparr>df :=
        \<lparr>cols = [(''date'', [VDate 1672531200000000000, VDate 1672531200000000000]),
                  (''v'', [VInt 4611686018427387904, VInt 4611686018427387904])],
         index = [VInt 0, VInt 1], index_name = None\<rparr>\<rparr>,
      Inr (Some \<lparr>cols = [(''date'', [VDate 1672531200000000000]),
                         (''v'', [VInt (- 9223372036854775808)]),
                         (''series'', [VStr ''v''])],
                 index = [VInt 0], index_name = None\<rparr>)) \<and>
   (4611686018427387904::int) + 4611686018427387904 \<noteq> - 9223372036854775808"
  by (simp add: aggregate_def groupby_sum_def sales_processor_def int64_ok_def wrap_int64_def
      frame_eval)

text \<open>
  C4, amended. On a table whose date column holds timestamps or nulls and whose target
  column holds 64-bit integers, with the date, target and series columns distinct,
  \<^verbatim>\<open>aggregate\<close> produces one row for each date of the table, in strictly ascending
  order of the dates, and the target of a row is the sum of the targets of the rows of
  the table that have its date, made in 64-bit arithmetic: the sum itself when it fits
  64 bits, and the sum wrapped around when it does not. The sales
  \<open>(d1, 5), (d1, 3), (d2, 2)\<close> give \<open>(d1, 8), (d2, 2)\<close>.
\<close>

theorem aggregate_sums_by_date:
  assumes "getitem (df s) (date_column s) = Inr ks"
    and "getitem (df s) (target s) = Inr (map VInt ns)"
    and "length ks = length ns"
    and "list_all date_or_null ks"
    and "\<forall>n\<in>set ns. - 9223372036854775808 \<le> n \<and> n \<le> 9223372036854775807"
    and "date_column s \<noteq> target s"
    and "graph s \<noteq> date_column s"
    and "graph s \<noteq> target s"
  shows "\<exists>out ds. produced (aggregate s inplace) = Some out \<and>
           nrows out = length ds \<and>
           getitem out (date_column s) = Inr (map VDate ds) \<and>
           sorted_wrt (<) ds \<and>
           set ds = {t. VDate t \<in> set ks} \<and>
           getitem out (target s) =
             Inr (map (\<lambda>d. VInt
                    (let total = (\<Sum>i | i < length ks \<and> ks ! i = VDate d. ns ! i)
                     in if - 9223372036854775808 \<le> total \<and> total \<le> 9223372036854775807
                        then total
                        else (total + 9223372036854775808) mod 18446744073709551616
                               - 9223372036854775808)) ds)"
proof -
  define ds where "ds = sort (remdups (timestamps ks))"
  define grouped where "grouped =
     \<lparr>cols = [(date_column s, map VDate ds),
              (target s, map (\<lambda>k. VInt (wrap_int64 (sum_list (map snd
                  (filter (\<lambda>(k', n). k' = VDate k) (zip ks ns)))))) ds)],
      index = range_index (length ds), index_name = None\<rparr>"
  define out where "out = set_scalar grouped (graph s) (VStr (target s))"
  have g: "groupby_sum (df s) (date_column s) (target s) = Inr grouped"
    using assms(1,2,4,6) int64_values_VInt [OF assms(5)]
    by (simp add: groupby_sum_def grouped_def ds_def Let_def)
  have p: "produced (aggregate s inplace) = Some out"
    by (simp add: aggregate_def g out_def Let_def)
  have n: "nrows out = length ds"
    by (simp add: out_def nrows_set_scalar) (simp add: grouped_def nrows_def range_index_def)
  have d: "getitem out (date_column s) = Inr (map VDate ds)"
    using assms(7) by (simp add: out_def getitem_set_scalar_other) (simp add: getitem_def grouped_def)
  have t: "getitem out (target s) =
      Inr (map (\<lambda>d. VInt
                    (let total = (\<Sum>i | i < length ks \<and> ks ! i = VDate d. ns ! i)
                     in if - 9223372036854775808 \<le> total \<and> total \<le> 9223372036854775807
                        then total
                        else (total + 9223372036854775808) mod 18446744073709551616
                               - 9223372036854775808)) ds)"
    using assms(6,8)
    by (simp add: out_def getitem_set_scalar_other)
       (simp add: getitem_def grouped_def group_sum [OF assms(3)] wrap_int64_eq Let_def)
  have so: "sorted_wrt (<) ds"
    by (simp add: ds_def strict_sorted_iff)
  have st: "set ds = {t. VDate t \<in> set ks}"
    by (simp add: ds_def set_timestamps)
  from p n d so st t show ?thesis by blast
qed

theorem aggregate_sums_by_date_witness:
  "produced (aggregate (sales_processor True) False) = Some totals \<and>
   getitem totals ''date'' = Inr [VDate 1672531200000000000, VDate 1672617600000000000] \<and>
   getitem totals ''v'' = Inr [VInt 8, VInt 2]"
proof -
  have a: "getitem (df (sales_processor True)) (date_column (sales_processor True)) =
      Inr [VDate 1672531200000000000, VDate 1672531200000000000, VDate 1672617600000000000]"
    by (simp add: sales_processor_def getitem_def)
  have b: "getitem (df (sales_processor True)) (target (sales_processor True)) =
      Inr (map VInt [5, 3, 2])"
    by (simp add: sales_processor_def getitem_def)
  have "\<exists>out ds. produced (aggregate (sales_processor True) False) = Some out \<and>
           nrows out = length ds \<and> getitem out (date_column (sales_processor True)) = Inr (map VDate ds)"
    using aggregate_sums_by_date [OF a b, of False]
    by (simp add: sales_processor_def) blast
  moreover have "produced (aggregate (sales_processor True) False) = Some totals"
    by (simp add: aggregate_def groupby_sum_def sales_processor_def totals_def int64_ok_def
        wrap_int64_def frame_eval)
  ultimately show ?thesis
    by (simp add: totals_def getitem_def)
qed

end
